theory Spec2Isabelle
  imports Complex_Main "HOL-Library.Multiset"
begin

section \<open>Data model of the repayment service\<close>

text \<open>
  The enums of \<^verbatim>\<open>repayment.service.ts\<close>. Identifiers are the database's string ids,
  timestamps are milliseconds since the epoch, and the arbitrary-precision \<^verbatim>\<open>Decimal\<close>
  of the ORM is an exact rational.
\<close>

datatype RepaymentMethod = CASH | TRANSFER | POS | MOBILE | USSD | OTHER

datatype ScheduleStatus = PENDING | PARTIAL | PAID | OVERDUE

datatype Role = ADMIN | BRANCH_MANAGER | CREDIT_OFFICER

datatype LoanStatus =
  DRAFT | PENDING_APPROVAL | APPROVED | ACTIVE | COMPLETED | DEFAULTED | WRITTEN_OFF | CANCELED

type_synonym ident = string
type_synonym timestamp = int
type_synonym decimal = rat

record loan =
  loan_id :: ident
  loan_status :: LoanStatus
  loan_branchId :: ident
  loan_closedAt :: "timestamp option"
  loan_deletedAt :: "timestamp option"

record schedule_item =
  si_id :: ident
  si_loanId :: ident
  si_sequence :: int
  si_dueDate :: timestamp
  si_totalDue :: decimal
  si_paidAmount :: decimal
  si_status :: ScheduleStatus
  si_closedAt :: "timestamp option"
  si_deletedAt :: "timestamp option"

record repayment =
  rp_id :: ident
  rp_loanId :: ident
  rp_receivedByUserId :: ident
  rp_amount :: decimal
  rp_paidAt :: timestamp
  rp_method :: RepaymentMethod
  rp_reference :: "string option"
  rp_notes :: "string option"
  rp_createdAt :: timestamp
  rp_deletedAt :: "timestamp option"

record allocation =
  al_repaymentId :: ident
  al_scheduleItemId :: ident
  al_amount :: decimal

text \<open>The four tables the service reads and writes, each a list of rows in table order.\<close>

record store =
  loans :: "loan list"
  scheduleItems :: "schedule_item list"
  repayments :: "repayment list"
  allocations :: "allocation list"

record CreateRepaymentData =
  crd_loanId :: ident
  crd_amount :: decimal
  crd_paidAt :: "timestamp option"
  crd_method :: RepaymentMethod
  crd_reference :: "string option"
  crd_notes :: "string option"

text \<open>
  The errors thrown by the service: \<^verbatim>\<open>"Loan not found"\<close>,
  \<^verbatim>\<open>"Can only make payments on active loans"\<close>, \<^verbatim>\<open>"Repayment not found"\<close>,
  \<^verbatim>\<open>"Credit officers cannot delete repayments"\<close>,
  \<^verbatim>\<open>"You do not have permission to delete this repayment"\<close>,
  \<^verbatim>\<open>"Cannot delete repayment after 24 hours. Contact admin."\<close>, and the exception of
  a database call that fails.
\<close>

datatype error =
  LoanNotFound | LoanNotActive | RepaymentNotFound | CreditOfficerCannotDelete
  | PermissionDenied | DeleteWindowExpired | DatabaseError

section \<open>Database primitives\<close>

text \<open>\<^verbatim>\<open>findUnique({ where: { id } })\<close>: the row with that id, or null.\<close>

definition findLoan :: "store \<Rightarrow> ident \<Rightarrow> loan option" where
  "findLoan s lid = find (\<lambda>l. loan_id l = lid) (loans s)"

definition findScheduleItem :: "store \<Rightarrow> ident \<Rightarrow> schedule_item option" where
  "findScheduleItem s iid = find (\<lambda>i. si_id i = iid) (scheduleItems s)"

definition findRepayment :: "store \<Rightarrow> ident \<Rightarrow> repayment option" where
  "findRepayment s rid = find (\<lambda>r. rp_id r = rid) (repayments s)"

text \<open>
  The id the database gives a new row is one no row carries yet: here a string longer
  than every id in use.
\<close>

definition freshId :: "ident list \<Rightarrow> ident" where
  "freshId used = replicate (Suc (fold max (map length used) 0)) (CHR ''r'')"

definition newRepaymentId :: "store \<Rightarrow> ident" where
  "newRepaymentId s = freshId (map rp_id (repayments s) @ map al_repaymentId (allocations s))"

text \<open>\<^verbatim>\<open>repaymentScheduleItem.update({ where: { id }, data: { paidAmount, status, closedAt } })\<close>\<close>

definition updateScheduleItem ::
  "ident \<Rightarrow> decimal \<Rightarrow> ScheduleStatus \<Rightarrow> timestamp option \<Rightarrow> store \<Rightarrow> store" where
  "updateScheduleItem iid newPaid newStatus newClosed s =
     s\<lparr>scheduleItems :=
         map (\<lambda>i. if si_id i = iid
                  then i\<lparr>si_paidAmount := newPaid, si_status := newStatus, si_closedAt := newClosed\<rparr>
                  else i)
             (scheduleItems s)\<rparr>"

text \<open>\<^verbatim>\<open>loan.update({ where: { id }, data: { status, closedAt } })\<close>\<close>

definition updateLoan :: "ident \<Rightarrow> LoanStatus \<Rightarrow> timestamp option \<Rightarrow> store \<Rightarrow> store" where
  "updateLoan lid st newClosed s =
     s\<lparr>loans :=
         map (\<lambda>l. if loan_id l = lid then l\<lparr>loan_status := st, loan_closedAt := newClosed\<rparr> else l)
             (loans s)\<rparr>"

text \<open>
  The query of \<^verbatim>\<open>allocatePayment\<close>: the loan's non-deleted items with status PENDING,
  PARTIAL or OVERDUE, \<^verbatim>\<open>orderBy: { dueDate: "asc" }\<close>. The query names no second sort
  key, so rows with equal due dates come back in the order the table holds them.
\<close>

definition outstandingItem :: "ident \<Rightarrow> schedule_item \<Rightarrow> bool" where
  "outstandingItem lid i \<longleftrightarrow>
     si_loanId i = lid \<and> si_status i \<in> {PENDING, PARTIAL, OVERDUE} \<and> si_deletedAt i = None"

definition findOutstanding :: "store \<Rightarrow> ident \<Rightarrow> schedule_item list" where
  "findOutstanding s lid = sort_key si_dueDate (filter (outstandingItem lid) (scheduleItems s))"

text \<open>
  The count of \<^verbatim>\<open>checkLoanCompletion\<close> and of \<^verbatim>\<open>deleteRepayment\<close>: the loan's
  non-deleted items whose status is not PAID.
\<close>

definition countUnpaid :: "store \<Rightarrow> ident \<Rightarrow> nat" where
  "countUnpaid s lid =
     length (filter (\<lambda>i. si_loanId i = lid \<and> si_status i \<noteq> PAID \<and> si_deletedAt i = None)
               (scheduleItems s))"

section \<open>Recording a payment\<close>

text \<open>The amount one item takes: \<^verbatim>\<open>remainingAmount.gte(itemOutstanding) ? itemOutstanding : remainingAmount\<close>.\<close>

definition allocationAmount :: "decimal \<Rightarrow> decimal \<Rightarrow> decimal" where
  "allocationAmount remainingAmount itemOutstanding =
     (if remainingAmount \<ge> itemOutstanding then itemOutstanding else remainingAmount)"

definition allocStatus :: "decimal \<Rightarrow> decimal \<Rightarrow> ScheduleStatus" where
  "allocStatus newPaidAmount totalDue = (if newPaidAmount \<ge> totalDue then PAID else PARTIAL)"

text \<open>
  The loop of \<^verbatim>\<open>allocatePayment\<close> over the fetched items: it stops once nothing
  remains, skips an item with nothing outstanding, and otherwise pushes an allocation and
  writes the item's new paid amount, status and close time.
\<close>

fun allocLoop ::
  "ident \<Rightarrow> timestamp \<Rightarrow> schedule_item list \<Rightarrow> decimal \<Rightarrow> allocation list \<Rightarrow> store
    \<Rightarrow> store \<times> allocation list" where
  "allocLoop repaymentId now [] remainingAmount allocs s = (s, allocs)"
| "allocLoop repaymentId now (item # rest) remainingAmount allocs s =
     (if remainingAmount \<le> 0 then (s, allocs)
      else let itemOutstanding = si_totalDue item - si_paidAmount item in
        if itemOutstanding \<le> 0 then allocLoop repaymentId now rest remainingAmount allocs s
        else let allocAmt = allocationAmount remainingAmount itemOutstanding;
                 newPaidAmount = si_paidAmount item + allocAmt;
                 newStatus = allocStatus newPaidAmount (si_totalDue item);
                 s' = updateScheduleItem (si_id item) newPaidAmount newStatus
                        (if newStatus = PAID then Some now else None) s
             in allocLoop repaymentId now rest (remainingAmount - allocAmt)
                  (allocs @ [\<lparr>al_repaymentId = repaymentId, al_scheduleItemId = si_id item,
                              al_amount = allocAmt\<rparr>]) s')"

definition allocatePayment :: "ident \<Rightarrow> ident \<Rightarrow> decimal \<Rightarrow> timestamp \<Rightarrow> store \<Rightarrow> store" where
  "allocatePayment repaymentId loanId amount now s =
     (case allocLoop repaymentId now (findOutstanding s loanId) amount [] s of
        (s', allocs) \<Rightarrow>
          if length allocs > 0 then s'\<lparr>allocations := allocations s' @ allocs\<rparr> else s')"

definition checkLoanCompletion :: "ident \<Rightarrow> timestamp \<Rightarrow> store \<Rightarrow> store" where
  "checkLoanCompletion loanId now s =
     (if countUnpaid s loanId = 0 then updateLoan loanId COMPLETED (Some now) s else s)"

text \<open>
  The row \<^verbatim>\<open>repayment.create\<close> inserts: the supplied fields, \<^verbatim>\<open>paidAt\<close> defaulting to
  the current time, and the columns the database fills in (the id, the creation time, a
  null \<^verbatim>\<open>deletedAt\<close>).
\<close>

definition newRepayment :: "store \<Rightarrow> CreateRepaymentData \<Rightarrow> ident \<Rightarrow> timestamp \<Rightarrow> repayment" where
  "newRepayment s data receivedByUserId now =
     \<lparr>rp_id = newRepaymentId s, rp_loanId = crd_loanId data,
      rp_receivedByUserId = receivedByUserId, rp_amount = crd_amount data,
      rp_paidAt = (case crd_paidAt data of Some t \<Rightarrow> t | None \<Rightarrow> now),
      rp_method = crd_method data, rp_reference = crd_reference data,
      rp_notes = crd_notes data, rp_createdAt = now, rp_deletedAt = None\<rparr>"

definition createRepayment ::
  "store \<Rightarrow> CreateRepaymentData \<Rightarrow> ident \<Rightarrow> timestamp \<Rightarrow> store \<times> (error + repayment)" where
  "createRepayment s data receivedByUserId now =
     (case findLoan s (crd_loanId data) of
        None \<Rightarrow> (s, Inl LoanNotFound)
      | Some theLoan \<Rightarrow>
          if loan_deletedAt theLoan \<noteq> None then (s, Inl LoanNotFound)
          else if loan_status theLoan \<noteq> ACTIVE then (s, Inl LoanNotActive)
          else
            let rp = newRepayment s data receivedByUserId now;
                s1 = s\<lparr>repayments := repayments s @ [rp]\<rparr>;
                s2 = allocatePayment (rp_id rp) (crd_loanId data) (crd_amount data) now s1;
                s3 = checkLoanCompletion (crd_loanId data) now s2
            in (s3, Inr rp))"

section \<open>Deleting a repayment\<close>

text \<open>
  The status the reversal writes:
  \<^verbatim>\<open>newPaidAmount.lte(0) ? PENDING : newPaidAmount.lt(totalDue) ? PARTIAL : PAID\<close>.
\<close>

definition reverseStatus :: "decimal \<Rightarrow> decimal \<Rightarrow> ScheduleStatus" where
  "reverseStatus newPaidAmount totalDue =
     (if newPaidAmount \<le> 0 then PENDING
      else if newPaidAmount < totalDue then PARTIAL else PAID)"

text \<open>
  The loop over the repayment's allocations: each re-reads its schedule item, skips it
  when the item is gone, and otherwise writes the reduced paid amount, the recomputed
  status and a null close time.
\<close>

fun reverseLoop :: "allocation list \<Rightarrow> store \<Rightarrow> store" where
  "reverseLoop [] s = s"
| "reverseLoop (a # rest) s =
     (case findScheduleItem s (al_scheduleItemId a) of
        None \<Rightarrow> reverseLoop rest s
      | Some scheduleItem \<Rightarrow>
          let newPaidAmount = si_paidAmount scheduleItem - al_amount a;
              newStatus = reverseStatus newPaidAmount (si_totalDue scheduleItem)
          in reverseLoop rest
               (updateScheduleItem (al_scheduleItemId a) newPaidAmount newStatus None s))"

text \<open>\<^verbatim>\<open>include: { allocations: true }\<close>: the allocation rows of the repayment.\<close>

definition allocationsOf :: "store \<Rightarrow> ident \<Rightarrow> allocation list" where
  "allocationsOf s rid = filter (\<lambda>a. al_repaymentId a = rid) (allocations s)"

definition softDeleteRepayment :: "ident \<Rightarrow> timestamp \<Rightarrow> store \<Rightarrow> store" where
  "softDeleteRepayment rid now s =
     s\<lparr>repayments :=
         map (\<lambda>r. if rp_id r = rid then r\<lparr>rp_deletedAt := Some now\<rparr> else r) (repayments s)\<rparr>"

text \<open>
  The branch check reads \<^verbatim>\<open>repayment.loan.branchId\<close> only for a branch manager with
  a non-empty branch id; a repayment whose loan row is missing makes that read, and the
  final \<^verbatim>\<open>loan.update\<close>, throw.
\<close>

definition branchMismatch :: "store \<Rightarrow> repayment \<Rightarrow> Role \<Rightarrow> ident option \<Rightarrow> error option" where
  "branchMismatch s repayment userRole userBranchId =
     (case userBranchId of
        None \<Rightarrow> None
      | Some b \<Rightarrow>
          if userRole = BRANCH_MANAGER \<and> b \<noteq> []
          then (case findLoan s (rp_loanId repayment) of
                  None \<Rightarrow> Some DatabaseError
                | Some l \<Rightarrow> if loan_branchId l \<noteq> b then Some PermissionDenied else None)
          else None)"

definition deleteRepayment ::
  "store \<Rightarrow> ident \<Rightarrow> Role \<Rightarrow> ident option \<Rightarrow> timestamp \<Rightarrow> store \<times> (error + unit)" where
  "deleteRepayment s rid userRole userBranchId now =
     (case findRepayment s rid of
        None \<Rightarrow> (s, Inl RepaymentNotFound)
      | Some repayment \<Rightarrow>
          if rp_deletedAt repayment \<noteq> None then (s, Inl RepaymentNotFound)
          else if userRole = CREDIT_OFFICER then (s, Inl CreditOfficerCannotDelete)
          else (case branchMismatch s repayment userRole userBranchId of
                  Some e \<Rightarrow> (s, Inl e)
                | None \<Rightarrow>
                    if now - rp_createdAt repayment > 24 * (1000 * 60 * 60)
                    then (s, Inl DeleteWindowExpired)
                    else
                      let s1 = reverseLoop (allocationsOf s rid) s;
                          s2 = softDeleteRepayment rid now s1
                      in if countUnpaid s2 (rp_loanId repayment) > 0
                         then (case findLoan s2 (rp_loanId repayment) of
                                 None \<Rightarrow> (s2, Inl DatabaseError)
                               | Some l \<Rightarrow>
                                   (updateLoan (rp_loanId repayment) ACTIVE None s2, Inr ()))
                         else (s2, Inr ())))"

section \<open>Recording a payment when a database write fails\<close>





section \<open>The effect of the two loops, row by row\<close>

text \<open>
  What \<^verbatim>\<open>allocatePayment\<close> writes into one schedule item that takes the amount \<open>a\<close>,
  and the list of (item id, amount) pairs the loop allocates from a remaining amount.
\<close>

definition touchItem :: "timestamp \<Rightarrow> decimal \<Rightarrow> schedule_item \<Rightarrow> schedule_item" where
  "touchItem now a i =
     i\<lparr>si_paidAmount := si_paidAmount i + a,
       si_status := allocStatus (si_paidAmount i + a) (si_totalDue i),
       si_closedAt := (if allocStatus (si_paidAmount i + a) (si_totalDue i) = PAID
                       then Some now else None)\<rparr>"


definition applyPlan :: "timestamp \<Rightarrow> (ident \<times> decimal) list \<Rightarrow> schedule_item \<Rightarrow> schedule_item" where
  "applyPlan now plan i = (case map_of plan (si_id i) of None \<Rightarrow> i | Some a \<Rightarrow> touchItem now a i)"

definition mkAllocation :: "ident \<Rightarrow> ident \<times> decimal \<Rightarrow> allocation" where
  "mkAllocation rid p = \<lparr>al_repaymentId = rid, al_scheduleItemId = fst p, al_amount = snd p\<rparr>"

text \<open>What \<^verbatim>\<open>deleteRepayment\<close> writes into a schedule item it takes the amount \<open>d\<close> from.\<close>

definition revItem :: "decimal \<Rightarrow> schedule_item \<Rightarrow> schedule_item" where
  "revItem d i =
     i\<lparr>si_paidAmount := si_paidAmount i - d,
       si_status := reverseStatus (si_paidAmount i - d) (si_totalDue i),
       si_closedAt := None\<rparr>"

definition allocatedTo :: "allocation list \<Rightarrow> ident \<Rightarrow> decimal" where
  "allocatedTo as iid = sum_list (map al_amount (filter (\<lambda>a. al_scheduleItemId a = iid) as))"

definition revRow :: "allocation list \<Rightarrow> schedule_item \<Rightarrow> schedule_item" where
  "revRow as i =
     (if si_id i \<in> al_scheduleItemId ` set as then revItem (allocatedTo as (si_id i)) i else i)"



section \<open>The ledger invariant\<close>








section \<open>Example loans\<close>

text \<open>
  A loan \<open>L\<close> of branch \<open>B\<close> with a given status and schedule, no repayment recorded
  yet, and a cash payment of a given amount against it. The first repayment recorded in
  such a store gets the id \<open>r\<close>.
\<close>

definition loanL :: "LoanStatus \<Rightarrow> loan" where
  "loanL st =
     \<lparr>loan_id = ''L'', loan_status = st, loan_branchId = ''B'', loan_closedAt = None,
      loan_deletedAt = None\<rparr>"

definition mkItem ::
  "ident \<Rightarrow> int \<Rightarrow> timestamp \<Rightarrow> decimal \<Rightarrow> decimal \<Rightarrow> ScheduleStatus \<Rightarrow> schedule_item" where
  "mkItem iid seq due totalDue paid st =
     \<lparr>si_id = iid, si_loanId = ''L'', si_sequence = seq, si_dueDate = due, si_totalDue = totalDue,
      si_paidAmount = paid, si_status = st, si_closedAt = None, si_deletedAt = None\<rparr>"

definition mkStore :: "LoanStatus \<Rightarrow> schedule_item list \<Rightarrow> store" where
  "mkStore st items = \<lparr>loans = [loanL st], scheduleItems = items, repayments = [], allocations = []\<rparr>"

definition cashPayment :: "decimal \<Rightarrow> CreateRepaymentData" where
  "cashPayment a =
     \<lparr>crd_loanId = ''L'', crd_amount = a, crd_paidAt = None, crd_method = CASH,
      crd_reference = None, crd_notes = None\<rparr>"

text \<open>What a test reads off a store: each item's id, paid amount and status, and so on.\<close>

definition itemView :: "store \<Rightarrow> (ident \<times> decimal \<times> ScheduleStatus) list" where
  "itemView s = map (\<lambda>i. (si_id i, si_paidAmount i, si_status i)) (scheduleItems s)"

definition loanView :: "store \<Rightarrow> (ident \<times> LoanStatus \<times> timestamp option) list" where
  "loanView s = map (\<lambda>l. (loan_id l, loan_status l, loan_closedAt l)) (loans s)"

definition allocationView :: "store \<Rightarrow> (ident \<times> decimal) list" where
  "allocationView s = map (\<lambda>a. (al_scheduleItemId a, al_amount a)) (allocations s)"

definition repaymentView :: "store \<Rightarrow> (decimal \<times> bool) list" where
  "repaymentView s = map (\<lambda>r. (rp_amount r, rp_deletedAt r = None)) (repayments s)"




text \<open>
  A loan with one item of 100 that received a payment of 40 while ACTIVE and was then
  marked DEFAULTED by the loan workflow.
\<close>

definition defaultedStore :: store where
  "defaultedStore =
     updateLoan ''L'' DEFAULTED None
       (fst (createRepayment (mkStore ACTIVE [mkItem ''i1'' 1 1704067200000 100 0 PENDING])
               (cashPayment 40) ''u'' 1704070000000))"

section \<open>Lemmas about the database primitives and the loops\<close>

lemma scheduleItems_updateLoan [simp]: "scheduleItems (updateLoan lid st c s) = scheduleItems s"
  by (simp add: updateLoan_def)

lemma repayments_updateLoan [simp]: "repayments (updateLoan lid st c s) = repayments s"
  by (simp add: updateLoan_def)

lemma allocations_updateLoan [simp]: "allocations (updateLoan lid st c s) = allocations s"
  by (simp add: updateLoan_def)

lemma loans_updateScheduleItem [simp]: "loans (updateScheduleItem i p st c s) = loans s"
  by (simp add: updateScheduleItem_def)

lemma repayments_updateScheduleItem [simp]:
  "repayments (updateScheduleItem i p st c s) = repayments s"
  by (simp add: updateScheduleItem_def)

lemma allocations_updateScheduleItem [simp]:
  "allocations (updateScheduleItem i p st c s) = allocations s"
  by (simp add: updateScheduleItem_def)

lemma ids_updateScheduleItem [simp]:
  "map si_id (scheduleItems (updateScheduleItem i p st c s)) = map si_id (scheduleItems s)"
  by (simp add: updateScheduleItem_def comp_def)



lemma allocLoop_frame:
  "allocLoop rid now items r allocs s = (s', allocs') \<Longrightarrow>
     loans s' = loans s \<and> repayments s' = repayments s \<and> allocations s' = allocations s
     \<and> map si_id (scheduleItems s') = map si_id (scheduleItems s)"
  by (induction rid now items r allocs s rule: allocLoop.induct)
     (auto simp: Let_def split: if_splits)






lemma findOutstanding_repayments [simp]:
  "findOutstanding (s\<lparr>repayments := X\<rparr>) lid = findOutstanding s lid"
  by (simp add: findOutstanding_def)

lemma createRepayment_ok_iff:
  "(\<exists>s' rp. createRepayment s data u now = (s', Inr rp)) \<longleftrightarrow>
     (\<exists>l. findLoan s (crd_loanId data) = Some l \<and> loan_deletedAt l = None \<and> loan_status l = ACTIVE)"
  by (auto simp: createRepayment_def Let_def split: option.splits)


lemma loans_reverseLoop [simp]: "loans (reverseLoop as s) = loans s"
  by (induction as arbitrary: s) (auto simp: Let_def split: option.splits)

lemma repayments_reverseLoop [simp]: "repayments (reverseLoop as s) = repayments s"
  by (induction as arbitrary: s) (auto simp: Let_def split: option.splits)

lemma allocations_reverseLoop [simp]: "allocations (reverseLoop as s) = allocations s"
  by (induction as arbitrary: s) (auto simp: Let_def split: option.splits)




lemma si_id_revItem [simp]: "si_id (revItem d r) = si_id r"
  by (simp add: revItem_def)




lemmas scenario_defs = mkStore_def loanL_def mkItem_def cashPayment_def itemView_def loanView_def
  allocationView_def repaymentView_def

lemmas run_defs = createRepayment_def findLoan_def newRepayment_def newRepaymentId_def freshId_def
  allocatePayment_def findOutstanding_def outstandingItem_def allocationAmount_def allocStatus_def
  updateScheduleItem_def checkLoanCompletion_def countUnpaid_def updateLoan_def






lemma allocLoop_nonpositive:
  "r \<le> 0 \<Longrightarrow> allocLoop rid now items r allocs s = (s, allocs)"
  by (cases items) simp_all


lemma allocatePayment_loans [simp]: "loans (allocatePayment rid lid amt now s) = loans s"
proof -
  obtain s' allocs where r: "allocLoop rid now (findOutstanding s lid) amt [] s = (s', allocs)"
    by (cases "allocLoop rid now (findOutstanding s lid) amt [] s")
  from allocLoop_frame [OF r] show ?thesis
    by (simp add: allocatePayment_def r)
qed










lemma al_repaymentId_mkAllocation [simp]: "al_repaymentId (mkAllocation rid p) = rid"
  by (simp add: mkAllocation_def)

lemma al_scheduleItemId_mkAllocation [simp]: "al_scheduleItemId (mkAllocation rid p) = fst p"
  by (simp add: mkAllocation_def)

lemma al_amount_mkAllocation [simp]: "al_amount (mkAllocation rid p) = snd p"
  by (simp add: mkAllocation_def)





lemma si_id_applyPlan [simp]: "si_id (applyPlan now plan i) = si_id i"
  by (simp add: applyPlan_def touchItem_def split: option.splits)

lemma si_id_revRow [simp]: "si_id (revRow as i) = si_id i"
  by (simp add: revRow_def)


lemma scheduleItems_softDeleteRepayment [simp]:
  "scheduleItems (softDeleteRepayment rid now s) = scheduleItems s"
  by (simp add: softDeleteRepayment_def)

lemma loans_softDeleteRepayment [simp]: "loans (softDeleteRepayment rid now s) = loans s"
  by (simp add: softDeleteRepayment_def)

lemma allocations_softDeleteRepayment [simp]:
  "allocations (softDeleteRepayment rid now s) = allocations s"
  by (simp add: softDeleteRepayment_def)

lemma countUnpaid_cong: "scheduleItems s = scheduleItems t \<Longrightarrow> countUnpaid s lid = countUnpaid t lid"
  by (simp add: countUnpaid_def)


















lemma si_totalDue_revRow [simp]: "si_totalDue (revRow as i) = si_totalDue i"
  by (simp add: revRow_def revItem_def)


lemma si_totalDue_applyPlan [simp]: "si_totalDue (applyPlan now plan i) = si_totalDue i"
  by (simp add: applyPlan_def touchItem_def split: option.splits)







section \<open>Claims\<close>










text \<open>
  C4 at a DEFAULTED loan. The loan has one item, PARTIAL with 40 of 100 paid by the
  repayment \<open>r\<close>. An administrator deletes \<open>r\<close> an hour after it was recorded: the item goes
  back to PENDING with nothing paid, and the loan is written ACTIVE.
\<close>

theorem C4_defaulted_loan_reactivated:
  "loanView defaultedStore = [(''L'', DEFAULTED, None)]
   \<and> itemView defaultedStore = [(''i1'', 40, PARTIAL)]
   \<and> allocationView defaultedStore = [(''i1'', 40)]
   \<and> snd (deleteRepayment defaultedStore ''r'' ADMIN None 1704073600000) = Inr ()
   \<and> itemView (fst (deleteRepayment defaultedStore ''r'' ADMIN None 1704073600000))
      = [(''i1'', 0, PENDING)]
   \<and> loanView (fst (deleteRepayment defaultedStore ''r'' ADMIN None 1704073600000))
      = [(''L'', ACTIVE, None)]"
  apply (simp add: defaultedStore_def scenario_defs run_defs Let_def)
  apply (simp add: deleteRepayment_def findRepayment_def branchMismatch_def allocationsOf_def
      findScheduleItem_def reverseStatus_def softDeleteRepayment_def updateScheduleItem_def
      countUnpaid_def findLoan_def updateLoan_def Let_def)
  done












text \<open>
  C10. A payment with a non-positive amount against an ACTIVE, non-deleted loan still
  creates the repayment row with that amount; the allocation walk stops at once, so no
  allocation row is created and no schedule item changes.
\<close>

theorem C10_nonpositive_amount:
  "findLoan s (crd_loanId data) = Some l \<Longrightarrow> loan_deletedAt l = None \<Longrightarrow> loan_status l = ACTIVE \<Longrightarrow>
   crd_amount data \<le> 0 \<Longrightarrow>
     (\<exists>s' rp. createRepayment s data u now = (s', Inr rp)
        \<and> rp_amount rp = crd_amount data
        \<and> repayments s' = repayments s @ [rp]
        \<and> allocations s' = allocations s
        \<and> scheduleItems s' = scheduleItems s)"
  by (simp add: createRepayment_def Let_def allocatePayment_def allocLoop_nonpositive
        checkLoanCompletion_def newRepayment_def updateLoan_def)

theorem C10_witness:
  "findLoan (mkStore ACTIVE [mkItem ''i1'' 1 1704067200000 50 0 PENDING]) (crd_loanId (cashPayment (- 5)))
     = Some (loanL ACTIVE)
   \<and> loan_deletedAt (loanL ACTIVE) = None \<and> loan_status (loanL ACTIVE) = ACTIVE
   \<and> crd_amount (cashPayment (- 5)) \<le> 0
   \<and> repaymentView (fst (createRepayment (mkStore ACTIVE [mkItem ''i1'' 1 1704067200000 50 0 PENDING])
        (cashPayment (- 5)) ''u'' 1704070000000)) = [(- 5, True)]
   \<and> itemView (fst (createRepayment (mkStore ACTIVE [mkItem ''i1'' 1 1704067200000 50 0 PENDING])
        (cashPayment (- 5)) ''u'' 1704070000000)) = [(''i1'', 0, PENDING)]"
proof -
  let ?s = "mkStore ACTIVE [mkItem ''i1'' 1 1704067200000 50 0 PENDING]"
  have a: "findLoan ?s (crd_loanId (cashPayment (- 5))) = Some (loanL ACTIVE)"
    by (simp add: scenario_defs findLoan_def)
  have b: "loan_deletedAt (loanL ACTIVE) = None" and c: "loan_status (loanL ACTIVE) = ACTIVE"
    by (simp_all add: loanL_def)
  have d: "crd_amount (cashPayment (- 5)) \<le> 0" by (simp add: cashPayment_def)
  from C10_nonpositive_amount [OF a b c d, of "''u''" 1704070000000]
  obtain s' rp where run: "createRepayment ?s (cashPayment (- 5)) ''u'' 1704070000000 = (s', Inr rp)"
    and amt: "rp_amount rp = crd_amount (cashPayment (- 5))"
    and rps: "repayments s' = repayments ?s @ [rp]"
    and its: "scheduleItems s' = scheduleItems ?s"
    by blast
  have "rp_deletedAt rp = None"
    using run by (auto simp: createRepayment_def newRepayment_def Let_def split: option.splits if_splits)
  with a b c d amt rps its show ?thesis
    by (simp add: run repaymentView_def itemView_def) (simp add: scenario_defs)
qed

end
